theory Spec2Isabelle
  imports Complex_Main "HOL-Library.Sublist"
begin

section \<open>Python primitives used by the planning core\<close>

text \<open>
  Python floats are modelled by exact reals: every comparison, sum and quotient of the
  source is the same expression over \<^typ>\<open>real\<close>. A missing value (pandas NaN) is
  \<^const>\<open>None\<close> of an option type wherever the source can produce or test one.
  Infinite floats and rounding error are outside this model.
\<close>

text \<open>\<^verbatim>\<open>round(x)\<close> on a float: to the nearest integer, ties to the even one.\<close>

definition py_round :: "real \<Rightarrow> int" where
  "py_round x =
     (let f = \<lfloor>x\<rfloor>; d = x - of_int f
      in if d < 1 / 2 then f
         else if 1 / 2 < d then f + 1
         else if even f then f else f + 1)"

definition digit_char :: "nat \<Rightarrow> char" where
  "digit_char d = ''0123456789'' ! d"

text \<open>\<^verbatim>\<open>str(n)\<close> for a non-negative integer.\<close>

function str_nat :: "nat \<Rightarrow> string" where
  "str_nat n = (if n < 10 then [digit_char n] else str_nat (n div 10) @ [digit_char (n mod 10)])"
  by pat_completeness auto
termination
  by (relation "measure id") auto

declare str_nat.simps [simp del]

text \<open>\<^verbatim>\<open>Series.fillna(v)\<close>, one element.\<close>

definition fillna :: "real \<Rightarrow> real option \<Rightarrow> real" where
  "fillna v c = (case c of None \<Rightarrow> v | Some x \<Rightarrow> x)"

text \<open>\<^verbatim>\<open>mean()\<close> of a non-empty series; the source guards every call on an empty one.\<close>

definition mean :: "real list \<Rightarrow> real" where
  "mean xs = sum_list xs / real (length xs)"

text \<open>\<^verbatim>\<open>std(ddof=0)\<close>: the population standard deviation.\<close>

definition std_ddof0 :: "real list \<Rightarrow> real" where
  "std_ddof0 xs = sqrt (mean (map (\<lambda>x. (x - mean xs)\<^sup>2) xs))"

text \<open>\<^verbatim>\<open>Series.tail(k)\<close>: the last \<open>k\<close> elements.\<close>

definition tail :: "nat \<Rightarrow> 'a list \<Rightarrow> 'a list" where
  "tail k xs = drop (length xs - k) xs"

section \<open>Forecast engine (core_demand.py, \<^verbatim>\<open>_compute_demand_stats_and_forecast\<close>)\<close>

text \<open>The dictionary the function returns. \<open>demand_cv\<close> is \<open>None\<close> where the source stores NaN.\<close>

record demand_stats =
  months_count :: nat
  demand_total :: real
  demand_avg_all :: real
  demand_avg_nonzero :: real
  demand_std :: real
  demand_cv :: "real option"
  last_month_demand :: real
  zeros_count :: nat
  zero_ratio :: real
  forecast_next_month :: real
  forecast_next_month_rounded :: int
  forecast_method :: string

definition compute_demand_stats_and_forecast :: "real option list \<Rightarrow> demand_stats" where
  "compute_demand_stats_and_forecast demand0 =
     (let demand = map (fillna 0) demand0;
          n = length demand;
          demand_total = sum_list demand;
          demand_avg_all = (if n > 0 then mean demand else 0);
          positive = filter (\<lambda>x. x > 0) demand;
          demand_avg_nonzero = (if length positive > 0 then mean positive else 0);
          demand_std = (if n > 1 then std_ddof0 demand else 0);
          demand_cv = (if demand_avg_all > 0 then Some (demand_std / demand_avg_all) else None);
          last_month_demand = (if n > 0 then last demand else 0);
          zeros_count = length (filter (\<lambda>x. x = 0) demand);
          zero_ratio = (if n > 0 then real zeros_count / real n else 1);
          (forecast_next_month, forecast_method) =
            (if demand_total = 0 then (0, ''zero_demand'')
             else if zero_ratio \<ge> 1 / 2 \<and> demand_avg_nonzero > 0
               then (demand_avg_nonzero, ''avg_nonzero_intermittent'')
             else if n \<ge> 4 then
               (let recent = tail (min 9 n) demand;
                    m = length recent
                in if m \<le> 3 then (mean recent, ''mean_last_'' @ str_nat m)
                   else
                     (let num_last_3 = min 3 m;
                          num_old = m - num_last_3;
                          weights_old = replicate num_old (1::real);
                          weights_last = replicate num_last_3 (2::real);
                          weights = weights_old @ weights_last
                      in (sum_list (map2 (*) recent weights) / sum_list weights,
                          ''weighted_last_'' @ str_nat m @ ''_old1_new2'')))
             else ((if n > 0 then mean demand else 0), ''mean_all_few_months''));
          forecast_next_month_rounded = max (py_round forecast_next_month) 0
      in \<lparr> months_count = n,
           demand_total = demand_total,
           demand_avg_all = demand_avg_all,
           demand_avg_nonzero = demand_avg_nonzero,
           demand_std = demand_std,
           demand_cv = demand_cv,
           last_month_demand = last_month_demand,
           zeros_count = zeros_count,
           zero_ratio = zero_ratio,
           forecast_next_month = forecast_next_month,
           forecast_next_month_rounded = forecast_next_month_rounded,
           forecast_method = forecast_method \<rparr>)"

text \<open>
  The forecast policy as the specification words it (section 4.5): the forecast and the
  method name of a series, by precedence. The window of the third rule is the last
  \<open>min 9 n\<close> points; its oldest \<open>m - 3\<close> points weigh 1 and its last three weigh 2, so the
  weights sum to \<open>m + 3\<close>.
\<close>

definition forecast_policy :: "real list \<Rightarrow> real \<times> string" where
  "forecast_policy xs =
     (let n = length xs;
          total = sum_list xs;
          zero_ratio = real (count_list xs 0) / real n;
          pos = filter (\<lambda>x. 0 < x) xs;
          avg_nonzero = (if pos = [] then 0 else sum_list pos / real (length pos))
      in if total = 0 then (0, ''zero_demand'')
         else if 1 / 2 \<le> zero_ratio \<and> 0 < avg_nonzero then (avg_nonzero, ''avg_nonzero_intermittent'')
         else if 4 \<le> n then
           (let m = min 9 n; window = drop (n - m) xs
            in ((sum_list (take (m - 3) window) + 2 * sum_list (drop (m - 3) window)) / real (m + 3),
                ''weighted_last_'' @ str_nat m @ ''_old1_new2''))
         else (sum_list xs / real n, ''mean_all_few_months''))"

section \<open>Strings and cells\<close>

text \<open>
  Strings are byte strings; the string operations below are Python's on ASCII text
  (\<^verbatim>\<open>str.strip\<close>, \<^verbatim>\<open>str.lower\<close>, \<^verbatim>\<open>str.upper\<close>, \<^verbatim>\<open>str.isdigit\<close>, \<^verbatim>\<open>in\<close>).
\<close>

definition py_isspace :: "char \<Rightarrow> bool" where
  "py_isspace c = (c \<in> set [CHR 0x09, CHR 0x0A, CHR 0x0B, CHR 0x0C, CHR 0x0D,
                            CHR 0x1C, CHR 0x1D, CHR 0x1E, CHR 0x1F, CHR '' ''])"

definition strip :: "string \<Rightarrow> string" where
  "strip s = rev (dropWhile py_isspace (rev (dropWhile py_isspace s)))"

definition lower_char :: "char \<Rightarrow> char" where
  "lower_char c =
     (case map_of (zip ''ABCDEFGHIJKLMNOPQRSTUVWXYZ'' ''abcdefghijklmnopqrstuvwxyz'') c of
        Some l \<Rightarrow> l | None \<Rightarrow> c)"

definition lower :: "string \<Rightarrow> string" where
  "lower s = map lower_char s"

definition upper_char :: "char \<Rightarrow> char" where
  "upper_char c =
     (case map_of (zip ''abcdefghijklmnopqrstuvwxyz'' ''ABCDEFGHIJKLMNOPQRSTUVWXYZ'') c of
        Some u \<Rightarrow> u | None \<Rightarrow> c)"

definition upper :: "string \<Rightarrow> string" where
  "upper s = map upper_char s"

definition is_digit :: "char \<Rightarrow> bool" where
  "is_digit c = (c \<in> set ''0123456789'')"

definition isdigit :: "string \<Rightarrow> bool" where
  "isdigit s = (s \<noteq> [] \<and> list_all is_digit s)"

definition digit_val :: "char \<Rightarrow> nat" where
  "digit_val c = (case map_of (zip ''0123456789'' [0, 1, 2, 3, 4, 5, 6, 7, 8, 9]) c of
                    Some d \<Rightarrow> d | None \<Rightarrow> 0)"

text \<open>\<^verbatim>\<open>int(ds)\<close> for a string of digits.\<close>

definition int_of_digits :: "string \<Rightarrow> nat" where
  "int_of_digits ds = foldl (\<lambda>a c. 10 * a + digit_val c) 0 ds"

text \<open>\<^verbatim>\<open>s.replace(c, "")\<close> for a one-character \<open>c\<close>.\<close>

definition replace_del :: "char \<Rightarrow> string \<Rightarrow> string" where
  "replace_del c s = filter (\<lambda>x. x \<noteq> c) s"

text \<open>\<^verbatim>\<open>sub in s\<close>, which is also \<^verbatim>\<open>str.contains\<close> for a pattern of plain letters.\<close>

fun contains :: "string \<Rightarrow> string \<Rightarrow> bool" where
  "contains sub [] = (sub = [])"
| "contains sub (c # cs) = (prefix sub (c # cs) \<or> contains sub cs)"

text \<open>
  A spreadsheet cell as pandas hands it over: \<open>None\<close>, a float NaN (an empty cell), a
  number with the text \<^verbatim>\<open>str\<close> gives for it, or a string.
\<close>

datatype cell = PyNone | PyNaN | Number real string | Text string

definition py_str :: "cell \<Rightarrow> string" where
  "py_str x = (case x of PyNone \<Rightarrow> ''None'' | PyNaN \<Rightarrow> ''nan'' | Number v t \<Rightarrow> t | Text s \<Rightarrow> s)"

definition isna :: "cell \<Rightarrow> bool" where
  "isna x = (case x of PyNone \<Rightarrow> True | PyNaN \<Rightarrow> True | _ \<Rightarrow> False)"

text \<open>
  \<^verbatim>\<open>pd.to_numeric(errors="coerce")\<close>, one element; \<open>None\<close> is NaN. How pandas reads a
  number out of a string is not part of the repository: it is the parameter \<open>parse\<close>.
\<close>

definition to_numeric :: "(string \<Rightarrow> real option) \<Rightarrow> cell \<Rightarrow> real option" where
  "to_numeric parse x =
     (case x of PyNone \<Rightarrow> None | PyNaN \<Rightarrow> None | Number v t \<Rightarrow> Some v | Text s \<Rightarrow> parse s)"

text \<open>A data frame: its columns in order, each a header and the cells of its rows.\<close>

type_synonym frame = "(string \<times> cell list) list"

text \<open>The rows of a frame, each a list of header and cell.\<close>

definition nrows :: "frame \<Rightarrow> nat" where
  "nrows df = (case df of [] \<Rightarrow> 0 | (h, cs) # _ \<Rightarrow> length cs)"

definition rows_of :: "frame \<Rightarrow> (string \<times> cell) list list" where
  "rows_of df = map (\<lambda>i. map (\<lambda>(h, cs). (h, cs ! i)) df) [0..<nrows df]"

text \<open>
  The frames pandas builds from a sheet: no two columns with the same trimmed header and
  all columns of one length. Column lookup by name below is pandas' on such frames.
\<close>

definition wf_frame :: "frame \<Rightarrow> bool" where
  "wf_frame df = (distinct (map (\<lambda>(h, cs). strip h) df) \<and> list_all (\<lambda>(h, cs). length cs = nrows df) df)"

section \<open>Code normalizer (core_demand.py, \<^verbatim>\<open>normalize_item_code\<close>)\<close>

text \<open>
  \<^verbatim>\<open>decimal.Decimal\<close>: a sign, a coefficient and an exponent; an infinity; or a NaN
  (quiet or signaling) with its diagnostic digits.
\<close>

datatype decimal =
    Dec_Finite bool nat int
  | Dec_Infinity bool
  | Dec_NaN bool bool string

definition parse_sign :: "string \<Rightarrow> bool \<times> string" where
  "parse_sign s =
     (case s of
        [] \<Rightarrow> (False, [])
      | c # r \<Rightarrow> if c = CHR ''-'' then (True, r) else if c = CHR ''+'' then (False, r) else (False, s))"

text \<open>What follows the digits of a number: nothing, or \<open>E\<close>, an optional sign and digits.\<close>

definition parse_exponent :: "string \<Rightarrow> int option" where
  "parse_exponent r =
     (case r of
        [] \<Rightarrow> Some 0
      | c # t \<Rightarrow>
          if lower_char c = CHR ''e'' then
            (let (neg, ds) = parse_sign t
             in if ds \<noteq> [] \<and> list_all is_digit ds
                then Some (if neg then - int (int_of_digits ds) else int (int_of_digits ds))
                else None)
          else None)"

text \<open>
  A number has digits before or after an optional point, at least one in all; its
  coefficient is the integer of all its digits and its exponent is lowered by the
  number of digits after the point.
\<close>

definition parse_number :: "bool \<Rightarrow> string \<Rightarrow> decimal option" where
  "parse_number sg r =
     (let intpart = takeWhile is_digit r;
          r1 = dropWhile is_digit r;
          (fracpart, r2) =
            (case r1 of
               [] \<Rightarrow> ([], [])
             | c # t \<Rightarrow> if c = CHR ''.'' then (takeWhile is_digit t, dropWhile is_digit t)
                        else ([], r1))
      in if intpart = [] \<and> fracpart = [] then None
         else (case parse_exponent r2 of
                 None \<Rightarrow> None
               | Some e \<Rightarrow> Some (Dec_Finite sg (int_of_digits (intpart @ fracpart))
                                   (e - int (length fracpart)))))"

definition parse_special :: "bool \<Rightarrow> string \<Rightarrow> decimal option" where
  "parse_special sg r =
     (let l = lower r
      in if l = ''inf'' \<or> l = ''infinity'' then Some (Dec_Infinity sg)
         else if prefix ''nan'' l \<and> list_all is_digit (drop 3 l)
           then Some (Dec_NaN sg False (dropWhile (\<lambda>c. c = CHR ''0'') (drop 3 l)))
         else if prefix ''snan'' l \<and> list_all is_digit (drop 4 l)
           then Some (Dec_NaN sg True (dropWhile (\<lambda>c. c = CHR ''0'') (drop 4 l)))
         else None)"

text \<open>
  \<^verbatim>\<open>Decimal(s)\<close> for a string: surrounding blanks and all underscores are dropped
  first; \<open>None\<close> is the exception InvalidOperation. Exponents have no bound here.
\<close>

definition Decimal :: "string \<Rightarrow> decimal option" where
  "Decimal s =
     (let (sg, r) = parse_sign (replace_del CHR ''_'' (strip s))
      in case parse_number sg r of
           Some d \<Rightarrow> Some d
         | None \<Rightarrow> parse_special sg r)"

text \<open>The quotient \<open>c / p\<close> rounded to the nearest integer, ties to even.\<close>

definition round_half_even_div :: "nat \<Rightarrow> nat \<Rightarrow> nat" where
  "round_half_even_div c p =
     (let q = c div p; r = c mod p
      in if 2 * r < p then q
         else if p < 2 * r then q + 1
         else if even q then q else q + 1)"

text \<open>
  \<^verbatim>\<open>d.to_integral_value()\<close>: a number whose exponent is not negative comes back as it
  is; a signaling NaN raises InvalidOperation (\<open>None\<close>).
\<close>

definition to_integral_value :: "decimal \<Rightarrow> decimal option" where
  "to_integral_value d =
     (case d of
        Dec_NaN sg signaling diag \<Rightarrow> if signaling then None else Some d
      | Dec_Infinity sg \<Rightarrow> Some d
      | Dec_Finite sg c e \<Rightarrow>
          if 0 \<le> e then Some d
          else Some (Dec_Finite sg (round_half_even_div c (10 ^ nat (- e))) 0))"

text \<open>\<^verbatim>\<open>a == b\<close> on decimals: equal values; a NaN equals nothing.\<close>

definition dec_eq :: "decimal \<Rightarrow> decimal \<Rightarrow> bool" where
  "dec_eq a b =
     (case (a, b) of
        (Dec_Finite s1 c1 e1, Dec_Finite s2 c2 e2) \<Rightarrow>
          (let m = min e1 e2;
               v1 = c1 * 10 ^ nat (e1 - m);
               v2 = c2 * 10 ^ nat (e2 - m)
           in v1 = v2 \<and> (v1 = 0 \<or> s1 = s2))
      | (Dec_Infinity s1, Dec_Infinity s2) \<Rightarrow> s1 = s2
      | _ \<Rightarrow> False)"

text \<open>\<^verbatim>\<open>"%+d" % i\<close>.\<close>

definition str_signed :: "int \<Rightarrow> string" where
  "str_signed i = (if i < 0 then ''-'' @ str_nat (nat (- i)) else ''+'' @ str_nat (nat i))"

definition sign_str :: "bool \<Rightarrow> string" where
  "sign_str sg = (if sg then ''-'' else '''')"

text \<open>
  \<^verbatim>\<open>str(d)\<close>: scientific notation as soon as the exponent is positive, or the number
  has more than five zeros after the point.
\<close>

definition dec_str :: "decimal \<Rightarrow> string" where
  "dec_str d =
     (case d of
        Dec_Infinity sg \<Rightarrow> sign_str sg @ ''Infinity''
      | Dec_NaN sg signaling diag \<Rightarrow> sign_str sg @ (if signaling then ''sNaN'' else ''NaN'') @ diag
      | Dec_Finite sg c e \<Rightarrow>
          (let digits = str_nat c;
               leftdigits = e + int (length digits);
               dotplace = (if e \<le> 0 \<and> - 6 < leftdigits then leftdigits else 1);
               (intpart, fracpart) =
                 (if dotplace \<le> 0
                    then (''0'', ''.'' @ replicate (nat (- dotplace)) CHR ''0'' @ digits)
                  else if int (length digits) \<le> dotplace
                    then (digits @ replicate (nat (dotplace - int (length digits))) CHR ''0'', '''')
                  else (take (nat dotplace) digits, ''.'' @ drop (nat dotplace) digits));
               exp = (if leftdigits = dotplace then '''' else ''E'' @ str_signed (leftdigits - dotplace))
           in sign_str sg @ intpart @ fracpart @ exp))"

definition normalize_item_code :: "cell \<Rightarrow> string" where
  "normalize_item_code x =
     (case x of
        PyNone \<Rightarrow> ''''
      | PyNaN \<Rightarrow> ''''
      | _ \<Rightarrow>
         (let s = strip (py_str x)
          in if s = '''' \<or> lower s = ''nan'' then ''''
             else
               (let s_clean = strip (replace_del CHR '','' s)
                in case Decimal s_clean of
                     None \<Rightarrow> s_clean
                   | Some d \<Rightarrow>
                       (case to_integral_value d of
                          None \<Rightarrow> s_clean
                        | Some t \<Rightarrow> if dec_eq d t then dec_str t else s_clean))))"

section \<open>ABC classifier (core_demand.py, \<^verbatim>\<open>build_product_level_forecast\<close>, its last step)\<close>

text \<open>
  A row of the \<open>summary\<close> table: the item code, the item name and the statistics of the
  item's company-wide monthly series. The classifier adds three columns to it.
\<close>

record summary_row =
  s_item_code :: string
  s_iteam_name :: string
  s_stats :: demand_stats

record product_row = summary_row +
  demand_share :: real
  cum_demand_share :: real
  abc_class :: string

definition abc :: "real \<Rightarrow> string" where
  "abc x = (if x \<le> 0.8 then ''A'' else if x \<le> 0.95 then ''B'' else ''C'')"

text \<open>\<^verbatim>\<open>cumsum()\<close>: the running sums, from the accumulator \<open>acc\<close>.\<close>

fun cumsum :: "real \<Rightarrow> real list \<Rightarrow> real list" where
  "cumsum acc [] = []"
| "cumsum acc (x # xs) = (acc + x) # cumsum (acc + x) xs"

definition with_abc :: "summary_row \<Rightarrow> real \<Rightarrow> real \<Rightarrow> string \<Rightarrow> product_row" where
  "with_abc r share cum cls =
     \<lparr> s_item_code = s_item_code r, s_iteam_name = s_iteam_name r, s_stats = s_stats r,
       demand_share = share, cum_demand_share = cum, abc_class = cls \<rparr>"

text \<open>
  The rows are sorted by falling \<open>demand_total\<close>. pandas does not fix the order of rows
  with equal totals; here they keep their order.
\<close>

definition abc_classify :: "summary_row list \<Rightarrow> product_row list" where
  "abc_classify summary =
     (let total_all = sum_list (map (\<lambda>r. demand_total (s_stats r)) summary)
      in if total_all > 0 then
           (let sorted = sort_key (\<lambda>r. - demand_total (s_stats r)) summary;
                shares = map (\<lambda>r. demand_total (s_stats r) / total_all) sorted;
                cums = cumsum 0 shares
            in map (\<lambda>(r, share, cum). with_abc r share cum (abc cum)) (zip sorted (zip shares cums)))
         else map (\<lambda>r. with_abc r 0 0 ''C'') summary)"

section \<open>Month labels and the wide-to-long transformer (core_demand.py)\<close>

text \<open>\<^verbatim>\<open>f"{n:0wd}"\<close>: the decimal digits of \<open>n\<close>, padded with zeros to width \<open>w\<close>.\<close>

definition fmt_zero_padded :: "nat \<Rightarrow> nat \<Rightarrow> string" where
  "fmt_zero_padded w n = replicate (w - length (str_nat n)) CHR ''0'' @ str_nat n"

definition standardize_month_label :: "string \<Rightarrow> string" where
  "standardize_month_label label =
     (let s = strip label;
          a = takeWhile is_digit s
      in case dropWhile is_digit s of
           [] \<Rightarrow> s
         | c # b \<Rightarrow>
             if (c = CHR ''-'' \<or> c = CHR ''/'') \<and> list_all is_digit b then
               (if length a = 4 \<and> 1 \<le> length b \<and> length b \<le> 2
                  then fmt_zero_padded 4 (int_of_digits a) @ ''-'' @ fmt_zero_padded 2 (int_of_digits b)
                else if 1 \<le> length a \<and> length a \<le> 2 \<and> length b = 4
                  then fmt_zero_padded 4 (int_of_digits b) @ ''-'' @ fmt_zero_padded 2 (int_of_digits a)
                else s)
             else s)"

text \<open>
  The transformer is called with its default column names only
  (\<^verbatim>\<open>build_demand_long\<close>); they are fixed here.
\<close>

definition item_col :: string where
  "item_col = ''iteam name''"

definition code_col :: string where
  "code_col = ''item code''"

definition is_total_col :: "string \<Rightarrow> bool" where
  "is_total_col c = contains ''total'' (lower (strip c))"

text \<open>
  The share of the first ten non-null values of a column that are digits only, once
  trimmed and without their points; 0 for a column of nulls.
\<close>

definition digits_ratio :: "cell list \<Rightarrow> real" where
  "digits_ratio cs =
     (let sample = take 10 (map py_str (filter (\<lambda>x. \<not> isna x) cs))
      in if length sample \<noteq> 0
         then real (length (filter (\<lambda>s. isdigit (replace_del CHR ''.'' (strip s))) sample))
                / real (length sample)
         else 0)"

text \<open>The two columns trade their cells when the names look like codes and the codes do not.\<close>

definition swap_reversed_columns :: "frame \<Rightarrow> frame" where
  "swap_reversed_columns df =
     (case (map_of df ''iteam name'', map_of df ''item code'') of
        (Some names, Some codes) \<Rightarrow>
          if digits_ratio names > 0.8 \<and> digits_ratio codes < 0.5
          then map (\<lambda>(h, cs). if h = ''item code'' then (h, names)
                               else if h = ''iteam name'' then (h, codes)
                               else (h, cs)) df
          else df
      | _ \<Rightarrow> df)"

record long_row =
  month :: string
  branch :: string
  item_code :: string
  iteam_name :: string
  demand :: real

text \<open>
  The exceptions of the core: a \<^verbatim>\<open>KeyError\<close> for columns a frame lacks, and the two
  \<^verbatim>\<open>ValueError\<close>s of the planner with the missing columns they list.
\<close>

datatype error =
    KeyError "string list"
  | Missing_forecast_columns "string list"
  | Missing_inventory_columns "string list"

text \<open>
  \<^verbatim>\<open>melt\<close>: for each branch column in turn, one row per sheet row, holding the item
  cell, the code cell, the column's header and the demand cell.
\<close>

definition melt :: "cell list \<Rightarrow> cell list \<Rightarrow> frame \<Rightarrow> (cell \<times> cell \<times> string \<times> cell) list" where
  "melt items codes branch_cols =
     concat (map (\<lambda>(c, cs). zip items (zip codes (map (\<lambda>v. (c, v)) cs))) branch_cols)"

definition build_long_from_wide_month ::
    "(string \<Rightarrow> real option) \<Rightarrow> frame \<Rightarrow> string \<Rightarrow> error + long_row list" where
  "build_long_from_wide_month parse df_wide month_label =
     (let df0 = map (\<lambda>(c, cs). (strip c, cs)) df_wide;
          month_label_std = standardize_month_label month_label;
          df = swap_reversed_columns df0;
          branch_cols = filter (\<lambda>(c, cs). c \<notin> set [item_col, code_col] \<and> \<not> is_total_col c) df
      in case (map_of df item_col, map_of df code_col) of
           (Some items, Some codes) \<Rightarrow>
             (let long0 = melt items codes branch_cols;
                  long1 = map (\<lambda>(it, cd, b, v). (it, cd, strip b, v)) long0;
                  long2 = map (\<lambda>(it, cd, b, v). (it, normalize_item_code cd, b, v)) long1;
                  long3 = filter (\<lambda>(it, cd, b, v). strip cd \<noteq> '''') long2;
                  long4 = map (\<lambda>(it, cd, b, v). (strip (py_str it), cd, b, v)) long3;
                  long5 = filter (\<lambda>(nm, cd, b, v). \<not> contains ''total'' (lower nm)) long4;
                  long6 = map (\<lambda>(nm, cd, b, v). (nm, cd, b, to_numeric parse v)) long5;
                  long7 = filter (\<lambda>(nm, cd, b, d). d \<noteq> None) long6
              in Inr (map (\<lambda>(nm, cd, b, d).
                            \<lparr> month = month_label_std, branch = b, item_code = cd,
                              iteam_name = nm, demand = fillna 0 d \<rparr>) long7))
         | _ \<Rightarrow> Inl (KeyError (filter (\<lambda>c. map_of df c = None) [item_col, code_col])))"

text \<open>
  The rows one demand cell yields, in the specification's words (section 4.3, steps 5
  to 8): none if the normalized code of its sheet row is empty, if the trimmed item name
  contains \<open>total\<close> in any case, or if the cell is not numeric; else one row with the
  cell's number as demand.
\<close>

definition cell_rows ::
    "(string \<Rightarrow> real option) \<Rightarrow> string \<Rightarrow> string \<Rightarrow> cell \<Rightarrow> cell \<Rightarrow> cell \<Rightarrow> long_row list" where
  "cell_rows parse label b it cd v =
     (if strip (normalize_item_code cd) = '''' \<or> contains ''total'' (lower (strip (py_str it)))
      then []
      else (case to_numeric parse v of
              None \<Rightarrow> []
            | Some d \<Rightarrow> [\<lparr> month = standardize_month_label label, branch = strip b,
                           item_code = normalize_item_code cd,
                           iteam_name = strip (py_str it), demand = d \<rparr>]))"

text \<open>
  The sheet as the transformer unpivots it: headers trimmed, name and code columns
  traded if they look reversed.
\<close>

definition prepared :: "frame \<Rightarrow> frame" where
  "prepared df_wide = swap_reversed_columns (map (\<lambda>(c, cs). (strip c, cs)) df_wide)"

text \<open>The branch columns: all but the two id columns and those with \<open>total\<close> in the header.\<close>

definition branch_columns :: "frame \<Rightarrow> frame" where
  "branch_columns df_wide =
     filter (\<lambda>(c, cs). c \<noteq> item_col \<and> c \<noteq> code_col \<and> \<not> is_total_col c) (prepared df_wide)"

text \<open>
  The output in the specification's words: for each branch column in turn and each sheet
  row, the rows its demand cell yields.
\<close>

definition long_rows :: "(string \<Rightarrow> real option) \<Rightarrow> frame \<Rightarrow> string \<Rightarrow> long_row list" where
  "long_rows parse df_wide label =
     (case (map_of (prepared df_wide) item_col, map_of (prepared df_wide) code_col) of
        (Some items, Some codes) \<Rightarrow>
          concat (map (\<lambda>(c, cs). concat (map (\<lambda>(it, cd, v). cell_rows parse label c it cd v)
                                            (zip items (zip codes cs))))
                   (branch_columns df_wide))
      | _ \<Rightarrow> [])"

text \<open>
  A month sheet: a well-formed frame without a column named \<open>demand\<close>, the name
  \<^verbatim>\<open>melt\<close> gives its value column.
\<close>

definition wf_sheet :: "frame \<Rightarrow> bool" where
  "wf_sheet df = (wf_frame df \<and> ''demand'' \<notin> set (map (\<lambda>(h, cs). strip h) df))"

section \<open>Inventory planner (core_inventory.py)\<close>

text \<open>\<^verbatim>\<open>s.strip(c)\<close> for a one-character \<open>c\<close>.\<close>

definition strip_char :: "char \<Rightarrow> string \<Rightarrow> string" where
  "strip_char c s = rev (dropWhile (\<lambda>x. x = c) (rev (dropWhile (\<lambda>x. x = c) s)))"

text \<open>
  The planner's own \<^verbatim>\<open>normalize_item_code\<close> (the second function of that name in the
  repository): it cuts a fractional part of zeros and knows no scientific notation.
\<close>

definition inv_normalize_item_code :: "cell \<Rightarrow> string" where
  "inv_normalize_item_code x =
     (let s = strip (py_str x)
      in if s = '''' \<or> lower s = ''nan'' then ''''
         else strip
           (if CHR ''.'' \<in> set s then
              (let left = takeWhile (\<lambda>c. c \<noteq> CHR ''.'') s;
                   right = tl (dropWhile (\<lambda>c. c \<noteq> CHR ''.'') s)
               in if strip_char CHR ''0'' right = '''' then left else s)
            else s))"

definition z_from_service_level :: "real option \<Rightarrow> real" where
  "z_from_service_level service_level =
     (case service_level of
        None \<Rightarrow> 0
      | Some sl \<Rightarrow>
          if sl \<ge> 0.999 then 3.09
          else if sl \<ge> 0.99 then 2.33
          else if sl \<ge> 0.98 then 2.05
          else if sl \<ge> 0.95 then 1.64
          else if sl \<ge> 0.90 then 1.28
          else if sl \<ge> 0.85 then 1.04
          else 0)"

definition required_forecast_cols :: "string list" where
  "required_forecast_cols =
     [''item code'', ''months_count'', ''months_list'', ''demand_total'', ''demand_avg_all'',
      ''demand_avg_nonzero'', ''demand_std'', ''demand_cv'', ''last_month_demand'',
      ''forecast_next_month'', ''forecast_next_month_rounded'', ''forecast_method'']"

definition required_inv_cols :: "string list" where
  "required_inv_cols =
     [''item code'', ''iteam name'', ''on_hand_dc'', ''on_order_from_china'',
      ''lead_time_import_days'', ''safety_stock_days'']"

definition strip_headers :: "frame \<Rightarrow> frame" where
  "strip_headers df = map (\<lambda>(c, cs). (strip c, cs)) df"

text \<open>\<^verbatim>\<open>df.rename(columns={old: new})\<close>.\<close>

definition rename_column :: "string \<Rightarrow> string \<Rightarrow> frame \<Rightarrow> frame" where
  "rename_column old new df = map (\<lambda>(c, cs). (if c = old then new else c, cs)) df"

text \<open>The cell of a row under a column name; the default if the row has no such column.\<close>

definition row_get :: "(string \<times> cell) list \<Rightarrow> string \<Rightarrow> cell \<Rightarrow> cell" where
  "row_get row name dflt = (case map_of row name of Some c \<Rightarrow> c | None \<Rightarrow> dflt)"

text \<open>
  \<^verbatim>\<open>drop_duplicates(keep="first")\<close> on a key: a row is kept unless its key was seen
  before it.
\<close>

fun drop_duplicates :: "('a \<Rightarrow> 'k) \<Rightarrow> 'k list \<Rightarrow> 'a list \<Rightarrow> 'a list" where
  "drop_duplicates key seen [] = []"
| "drop_duplicates key seen (x # xs) =
     (if key x \<in> set seen then drop_duplicates key seen xs
      else x # drop_duplicates key (key x # seen) xs)"

text \<open>
  \<^verbatim>\<open>pd.merge(how="left")\<close> on a key: each left row in order, once for each right row of
  its key, or once with nothing on the right if there is none.
\<close>

definition merge_left :: "('l \<Rightarrow> 'k) \<Rightarrow> ('r \<Rightarrow> 'k) \<Rightarrow> 'l list \<Rightarrow> 'r list \<Rightarrow> ('l \<times> 'r option) list" where
  "merge_left kl kr left right =
     concat (map (\<lambda>l. case filter (\<lambda>r. kr r = kl l) right of
                          [] \<Rightarrow> [(l, None)]
                        | ms \<Rightarrow> map (\<lambda>r. (l, Some r)) ms) left)"

definition map_service_level :: "real \<Rightarrow> cell \<Rightarrow> real" where
  "map_service_level service_level abc_cell =
     (let abc = upper (strip (py_str abc_cell));
          base = service_level
      in if abc = ''A'' then max base 0.98
         else if abc = ''B'' then base
         else if abc = ''C'' then min base 0.90
         else base)"

definition calc_safety_stock :: "string \<Rightarrow> real \<Rightarrow> real \<Rightarrow> real \<Rightarrow> real \<Rightarrow> real \<Rightarrow> real" where
  "calc_safety_stock safety_stock_mode fd ss_days lt_days sigma_d sl =
     (let z = z_from_service_level (Some sl)
      in if fd \<le> 0 then 0
         else if safety_stock_mode = ''days'' then fd * ss_days
         else if z > 0 \<and> sigma_d > 0 \<and> lt_days > 0 then z * sigma_d * sqrt lt_days
         else fd * ss_days)"

text \<open>\<open>None\<close> is the NaN the source returns.\<close>

definition calc_dos :: "real \<Rightarrow> real \<Rightarrow> real option" where
  "calc_dos fd avail = (if fd \<le> 0 then None else Some (avail / fd))"

definition decide_action :: "real \<Rightarrow> real \<Rightarrow> real \<Rightarrow> real \<Rightarrow> string" where
  "decide_action fd avail rop buffer_qty =
     (if fd \<le> 0 then ''Hold''
      else if avail \<le> rop then ''Order''
      else if avail \<le> rop + buffer_qty then ''Review''
      else ''Hold'')"

definition calc_order_qty :: "string \<Rightarrow> real \<Rightarrow> real \<Rightarrow> real \<Rightarrow> real \<Rightarrow> int" where
  "calc_order_qty decision fd avail target min_lt =
     (if decision \<noteq> ''Order'' then 0
      else if fd \<le> 0 then 0
      else
        (let raw_needed = max (target - avail) 0;
             order_qty = max raw_needed min_lt
         in if order_qty > 0 then py_round order_qty else 0))"

text \<open>
  A row of the plan: the inventory row, the forecast row joined to it (if any), and the
  columns the planner derives. \<open>forecast_next_month_num\<close> and \<open>demand_std_num\<close> are the
  columns \<open>forecast_next_month\<close> and \<open>demand_std\<close> after \<^verbatim>\<open>to_numeric\<close> and
  \<^verbatim>\<open>fillna(0.0)\<close>.
\<close>

record plan_row =
  inv_row :: "(string \<times> cell) list"
  fc_row :: "(string \<times> cell) list option"
  forecast_next_month_num :: real
  forecast_daily :: real
  on_hand_dc :: real
  on_order_from_china :: real
  available_qty_total :: real
  lead_time_import_days :: real
  safety_stock_days :: real
  demand_std_num :: real
  demand_daily_std :: real
  service_level_effective :: real
  safety_stock_qty :: real
  days_of_supply :: "real option"
  reorder_point :: real
  demand_during_lead_time :: real
  min_order_qty_lt :: real
  review_buffer_qty :: real
  inventory_decision :: string
  target_coverage_days :: real
  target_stock_level :: real
  suggested_order_qty :: int

text \<open>A cell of the forecast side of a merged row: NaN where no forecast row matched.\<close>

definition fc_cell :: "(string \<times> cell) list option \<Rightarrow> string \<Rightarrow> cell" where
  "fc_cell fo name = (case fo of None \<Rightarrow> PyNaN | Some f \<Rightarrow> row_get f name PyNaN)"

text \<open>
  The derived columns of one merged row, in the order the source assigns them.
  \<open>abc_cell\<close> is the row's \<open>abc_class\<close> cell if the merged frame has that column.
\<close>

definition derive_row ::
    "(string \<Rightarrow> real option) \<Rightarrow> int \<Rightarrow> real \<Rightarrow> string \<Rightarrow> int \<Rightarrow> cell option \<Rightarrow>
     (string \<times> cell) list \<Rightarrow> (string \<times> cell) list option \<Rightarrow> plan_row" where
  "derive_row parse days_per_month service_level safety_stock_mode review_days abc_cell l fo =
     (let fnm = fillna 0 (to_numeric parse (fc_cell fo ''forecast_next_month''));
          fd = fnm / real_of_int days_per_month;
          on_hand = fillna 0 (to_numeric parse (row_get l ''on_hand_dc'' PyNaN));
          on_order = fillna 0 (to_numeric parse (row_get l ''on_order_from_china'' PyNaN));
          avail = on_hand + on_order;
          lt_days = fillna 0 (to_numeric parse (row_get l ''lead_time_import_days'' PyNaN));
          ss_days = fillna 0 (to_numeric parse (row_get l ''safety_stock_days'' PyNaN));
          std = fillna 0 (to_numeric parse (fc_cell fo ''demand_std''));
          sigma_d = std / sqrt (real_of_int days_per_month);
          sl = (case abc_cell of
                  Some c \<Rightarrow> map_service_level service_level c
                | None \<Rightarrow> service_level);
          ss_qty = calc_safety_stock safety_stock_mode fd ss_days lt_days sigma_d sl;
          dos = calc_dos fd avail;
          rop = fd * lt_days + ss_qty;
          ddlt = fd * lt_days;
          min_lt = max (ddlt - avail) 0;
          buffer_qty = fd * real_of_int review_days;
          decision = decide_action fd avail rop buffer_qty;
          coverage = lt_days + ss_days;
          target = fd * coverage;
          qty = calc_order_qty decision fd avail target min_lt
      in \<lparr> inv_row = l, fc_row = fo,
           forecast_next_month_num = fnm, forecast_daily = fd,
           on_hand_dc = on_hand, on_order_from_china = on_order, available_qty_total = avail,
           lead_time_import_days = lt_days, safety_stock_days = ss_days,
           demand_std_num = std, demand_daily_std = sigma_d,
           service_level_effective = sl, safety_stock_qty = ss_qty, days_of_supply = dos,
           reorder_point = rop, demand_during_lead_time = ddlt, min_order_qty_lt = min_lt,
           review_buffer_qty = buffer_qty, inventory_decision = decision,
           target_coverage_days = coverage, target_stock_level = target,
           suggested_order_qty = qty \<rparr>)"

text \<open>The inventory frame with its headers trimmed and the alias \<open>item name\<close> renamed.\<close>

definition inventory_frame :: "frame \<Rightarrow> frame" where
  "inventory_frame df_inventory_dc =
     (let df_i = strip_headers df_inventory_dc
      in if ''iteam name'' \<notin> set (map fst df_i) \<and> ''item name'' \<in> set (map fst df_i)
         then rename_column ''item name'' ''iteam name'' df_i
         else df_i)"

text \<open>
  The forecast rows the join sees: each with its key and its numeric \<open>demand_total\<close>
  (0 for NaN), sorted by falling \<open>demand_total\<close>, one row kept for each key. pandas does
  not fix the order of rows with equal totals; here they keep their order.
\<close>

definition forecast_rows :: "(string \<Rightarrow> real option) \<Rightarrow> frame \<Rightarrow> (string \<times> real \<times> (string \<times> cell) list) list" where
  "forecast_rows parse df_f =
     map (\<lambda>row. (inv_normalize_item_code (row_get row ''item code'' PyNaN),
                 fillna 0 (to_numeric parse (row_get row ''demand_total'' PyNaN)),
                 row))
       (rows_of df_f)"

definition dedup_forecast_rows ::
    "(string \<times> real \<times> (string \<times> cell) list) list \<Rightarrow> (string \<times> real \<times> (string \<times> cell) list) list" where
  "dedup_forecast_rows rs = drop_duplicates fst [] (sort_key (\<lambda>(k, dt, row). - dt) rs)"

text \<open>
  The planner. A name that both frames carry (the key apart) is renamed on both sides
  by the merge, so a later read of it raises \<^verbatim>\<open>KeyError\<close>; the source reads
  \<open>forecast_next_month\<close> and \<open>demand_std\<close> so, and looks for \<open>abc_class\<close> among the
  merged columns.
\<close>

definition plan_inventory_dc ::
    "(string \<Rightarrow> real option) \<Rightarrow> frame \<Rightarrow> frame \<Rightarrow> int \<Rightarrow> real \<Rightarrow> string \<Rightarrow> int \<Rightarrow> error + plan_row list" where
  "plan_inventory_dc parse df_product_forecast df_inventory_dc
       days_per_month service_level safety_stock_mode review_days =
     (let df_f = strip_headers df_product_forecast;
          df_i = inventory_frame df_inventory_dc;
          missing_f = filter (\<lambda>c. c \<notin> set (map fst df_f)) required_forecast_cols;
          missing_i = filter (\<lambda>c. c \<notin> set (map fst df_i)) required_inv_cols
      in if missing_f \<noteq> [] then Inl (Missing_forecast_columns missing_f)
         else if missing_i \<noteq> [] then Inl (Missing_inventory_columns missing_i)
         else
           (let rows_f = dedup_forecast_rows (forecast_rows parse df_f);
                rows_i = map (\<lambda>row. (inv_normalize_item_code (row_get row ''item code'' PyNaN), row))
                           (rows_of df_i);
                f_abc = (''abc_class'' \<in> set (map fst df_f));
                i_abc = (''abc_class'' \<in> set (map fst df_i));
                df_merged = merge_left fst fst rows_i rows_f
            in if ''forecast_next_month'' \<in> set (map fst df_i) then Inl (KeyError [''forecast_next_month''])
               else if ''demand_std'' \<in> set (map fst df_i) then Inl (KeyError [''demand_std''])
               else Inr (map (\<lambda>((k, l), m).
                               (let fo = map_option (\<lambda>(k', dt, f). f) m;
                                    abc_cell =
                                      (if f_abc \<and> i_abc then None
                                       else if i_abc then Some (row_get l ''abc_class'' (Text ''''))
                                       else if f_abc then Some (fc_cell fo ''abc_class'')
                                       else None)
                                in derive_row parse days_per_month service_level safety_stock_mode
                                     review_days abc_cell l fo))
                          df_merged)))"

section \<open>Properties of the forecast engine\<close>

lemma count_list_filter: "count_list xs a = length (filter (\<lambda>x. x = a) xs)"
  by (induction xs) auto

lemma length_tail: "length (tail k xs) = min k (length xs)"
  by (simp add: tail_def)

lemma weighted_sum:
  "length w = k + j \<Longrightarrow>
   sum_list (map2 (*) w (replicate k (1::real) @ replicate j 2))
     = sum_list (take k w) + 2 * sum_list (drop k w)"
proof (induction k arbitrary: w)
  case 0
  then show ?case
  proof (induction j arbitrary: w)
    case 0
    then show ?case by simp
  next
    case (Suc j)
    then show ?case by (cases w) auto
  qed
next
  case (Suc k)
  then show ?case by (cases w) auto
qed

lemma sum_weights: "sum_list (replicate k (1::real) @ replicate j 2) = real k + 2 * real j"
  by (simp add: sum_list_replicate)

lemma weighted_mean_window:
  assumes "3 < length w"
  shows "sum_list (map2 (*) w (replicate (length w - min 3 (length w)) (1::real) @ replicate (min 3 (length w)) 2))
           / sum_list (replicate (length w - min 3 (length w)) (1::real) @ replicate (min 3 (length w)) 2)
         = (sum_list (take (length w - 3) w) + 2 * sum_list (drop (length w - 3) w)) / real (length w + 3)"
proof -
  have m3: "min 3 (length w) = 3" using assms by simp
  have len: "length w = (length w - 3) + 3" using assms by simp
  have num: "sum_list (map2 (*) w (replicate (length w - 3) (1::real) @ replicate 3 2))
      = sum_list (take (length w - 3) w) + 2 * sum_list (drop (length w - 3) w)"
    using weighted_sum [OF len] .
  have "sum_list (replicate (length w - 3) (1::real) @ replicate 3 2) = real (length w - 3) + 2 * real 3"
    by (rule sum_weights)
  also have "\<dots> = real (length w + 3)" using assms by simp
  finally have den: "sum_list (replicate (length w - 3) (1::real) @ replicate 3 2) = real (length w + 3)" .
  show ?thesis unfolding m3 num den ..
qed

lemma forecast_pair:
  "(forecast_next_month (compute_demand_stats_and_forecast series),
    forecast_method (compute_demand_stats_and_forecast series))
   = forecast_policy (map (fillna 0) series)"
proof -
  define xs where "xs = map (fillna 0) series"
  define n where "n = length xs"
  define w where "w = tail (min 9 n) xs"
  define code where "code =
      (if sum_list xs = 0 then (0, ''zero_demand'')
       else if 1 / 2 \<le> (if 0 < n then real (length (filter (\<lambda>x. x = 0) xs)) / real n else 1) \<and>
               0 < (if filter (\<lambda>x. 0 < x) xs \<noteq> [] then mean (filter (\<lambda>x. 0 < x) xs) else 0)
         then (if filter (\<lambda>x. 0 < x) xs \<noteq> [] then mean (filter (\<lambda>x. 0 < x) xs) else 0, ''avg_nonzero_intermittent'')
       else if 4 \<le> n
         then if length w \<le> 3 then (mean w, ''mean_last_'' @ str_nat (length w))
              else (sum_list (map2 (*) w (replicate (length w - min 3 (length w)) (1::real) @ replicate (min 3 (length w)) 2))
                      / sum_list (replicate (length w - min 3 (length w)) (1::real) @ replicate (min 3 (length w)) 2),
                    ''weighted_last_'' @ str_nat (length w) @ ''_old1_new2'')
       else (if 0 < n then mean xs else 0, ''mean_all_few_months''))"
  have lw: "length w = min 9 n" by (simp add: w_def length_tail n_def)
  have w_eq: "drop (n - min 9 n) xs = w" by (simp add: w_def tail_def n_def)
  have pos: "(0 < length (filter (\<lambda>x. 0 < x) xs)) = (filter (\<lambda>x. 0 < x) xs \<noteq> [])" by simp
  have start: "(forecast_next_month (compute_demand_stats_and_forecast series),
      forecast_method (compute_demand_stats_and_forecast series)) = code"
    unfolding compute_demand_stats_and_forecast_def Let_def code_def
    by (simp only: demand_stats.select_convs prod.collapse case_prod_beta
          xs_def [symmetric] n_def [symmetric] w_def [symmetric] pos)
  have "code = forecast_policy xs"
  proof (cases "4 \<le> n")
    case True
    then have "3 < length w" using lw by simp
    note wm = weighted_mean_window [OF this]
    have not3: "\<not> length w \<le> 3" using True lw by simp
    have npos: "0 < n" using True by simp
    show ?thesis
      unfolding code_def wm forecast_policy_def Let_def
      using npos not3 [unfolded lw]
      by (simp only: n_def [symmetric] w_eq True npos if_True if_False lw count_list_filter mean_def)
        auto
  next
    case False
    show ?thesis
      unfolding code_def forecast_policy_def Let_def
      apply (simp only: n_def [symmetric] False if_False count_list_filter mean_def)
      apply (cases "n = 0")
       apply (simp add: n_def)
      apply auto
      done
  qed
  with start show ?thesis by (simp only: xs_def)
qed

text \<open>
  C4. For every demand series the forecast and its method follow the precedence of the
  specification: zero total, then intermittent demand, then (from four points on) the
  window of the last \<open>min 9 n\<close> points weighted 1 on the oldest \<open>m - 3\<close> and 2 on the
  last three, else the plain mean. The three series of the specification give
  0 by zero_demand, 5 by avg_nonzero_intermittent and 20 by mean_all_few_months.
\<close>

theorem forecast_precedence:
  "(forecast_next_month (compute_demand_stats_and_forecast series),
    forecast_method (compute_demand_stats_and_forecast series))
     = forecast_policy (map (fillna 0) series)
   \<and> (forecast_next_month (compute_demand_stats_and_forecast (map Some [0, 0, 0, 0, 0])),
      forecast_method (compute_demand_stats_and_forecast (map Some [0, 0, 0, 0, 0])))
     = (0, ''zero_demand'')
   \<and> (forecast_next_month (compute_demand_stats_and_forecast (map Some [0, 5, 0, 0, 0])),
      forecast_method (compute_demand_stats_and_forecast (map Some [0, 5, 0, 0, 0])))
     = (5, ''avg_nonzero_intermittent'')
   \<and> (forecast_next_month (compute_demand_stats_and_forecast (map Some [10, 20, 30])),
      forecast_method (compute_demand_stats_and_forecast (map Some [10, 20, 30])))
     = (20, ''mean_all_few_months'')"
proof -
  have e1: "forecast_policy (map (fillna 0) (map Some [0, 0, 0, 0, 0])) = (0, ''zero_demand'')"
    by (simp add: forecast_policy_def fillna_def Let_def)
  have e2: "forecast_policy (map (fillna 0) (map Some [0, 5, 0, 0, 0])) = (5, ''avg_nonzero_intermittent'')"
    by (simp add: forecast_policy_def fillna_def Let_def)
  have e3: "forecast_policy (map (fillna 0) (map Some [10, 20, 30])) = (20, ''mean_all_few_months'')"
    by (simp add: forecast_policy_def fillna_def Let_def)
  show ?thesis
    unfolding forecast_pair e1 e2 e3 by simp
qed

text \<open>
  C5. For every demand series the rounded forecast is
  \<open>max (round forecast_next_month) 0\<close>, and so it is never negative.
\<close>

theorem rounded_forecast_nonneg:
  "forecast_next_month_rounded (compute_demand_stats_and_forecast series)
     = max (py_round (forecast_next_month (compute_demand_stats_and_forecast series))) 0
   \<and> 0 \<le> forecast_next_month_rounded (compute_demand_stats_and_forecast series)"
  unfolding compute_demand_stats_and_forecast_def Let_def case_prod_beta
  by (simp only: demand_stats.select_convs) simp

text \<open>
  C10. No demand series is given a method named \<open>mean_last_m\<close>: the method never starts
  with \<open>mean_last_\<close>, because the window taken in the branch for at least four points
  has \<open>min 9 n\<close> points, which is more than three.
\<close>

theorem never_mean_last:
  "\<not> prefix ''mean_last_'' (forecast_method (compute_demand_stats_and_forecast series))
   \<and> length (tail (min 9 (length series)) (map (fillna 0) series)) = min 9 (length series)
   \<and> min 4 (length series) \<le> length (tail (min 9 (length series)) (map (fillna 0) series))"
proof -
  have "\<not> prefix ''mean_last_'' (snd (forecast_policy xs))" for xs
    unfolding forecast_policy_def Let_def by simp
  from this [of "map (fillna 0) series"]
  have "\<not> prefix ''mean_last_'' (forecast_method (compute_demand_stats_and_forecast series))"
    unfolding forecast_pair [symmetric] by simp
  then show ?thesis by (simp add: length_tail)
qed

section \<open>Properties of the code normalizer\<close>

lemmas normalizer_defs =
  normalize_item_code_def py_str_def strip_def py_isspace_def lower_def lower_char_def
  replace_del_def Decimal_def parse_sign_def parse_number_def parse_exponent_def
  parse_special_def is_digit_def digit_val_def int_of_digits_def to_integral_value_def
  round_half_even_div_def dec_eq_def dec_str_def str_signed_def sign_str_def
  str_nat.simps digit_char_def Let_def

text \<open>
  C6. On the text \<open>6.97E+12\<close> the normalizer returns the text unchanged, in scientific
  notation, and not the plain integer string \<open>6970000000000\<close>: the integral value of a
  decimal with a positive exponent keeps the exponent, and so does its string. The other
  three examples of the specification hold, and \<open>None\<close> and NaN give the empty string.
\<close>

theorem normalize_scientific_notation_kept:
  "normalize_item_code (Text ''6.97E+12'') = ''6.97E+12''
   \<and> normalize_item_code (Text ''6.97E+12'') \<noteq> ''6970000000000''
   \<and> normalize_item_code (Text ''0.5'') = ''0.5''
   \<and> normalize_item_code (Text '''') = ''''
   \<and> normalize_item_code (Text '' 123,456 '') = ''123456''
   \<and> normalize_item_code PyNone = ''''
   \<and> normalize_item_code PyNaN = ''''"
proof -
  have a: "normalize_item_code (Text ''6.97E+12'') = ''6.97E+12''"
    by (simp add: normalizer_defs)
  have b: "normalize_item_code (Text ''0.5'') = ''0.5''"
    by (simp add: normalizer_defs)
  have c: "normalize_item_code (Text '''') = ''''"
    by (simp add: normalizer_defs)
  have d: "normalize_item_code (Text '' 123,456 '') = ''123456''"
    by (simp add: normalizer_defs)
  have e: "normalize_item_code PyNone = ''''" "normalize_item_code PyNaN = ''''"
    by (simp_all add: normalize_item_code_def)
  show ?thesis unfolding a b c d e by simp
qed

section \<open>Properties of the ABC classifier\<close>

text \<open>
  C1, as stated, fails: a table of one item whose only month has demand 10 is not
  classified \<open>A\<close>.
\<close>

theorem single_item_not_class_A:
  "\<not> (map abc_class
        (abc_classify [\<lparr> s_item_code = ''1001'', s_iteam_name = ''bolt'',
                         s_stats = compute_demand_stats_and_forecast [Some 10] \<rparr>]) = [''A''])"
  by (simp add: abc_classify_def compute_demand_stats_and_forecast_def fillna_def Let_def
        with_abc_def abc_def)

text \<open>
  C1, amended. For a table of exactly one item row with positive \<open>demand_total\<close>, the
  classifier gives that row demand share 1, cumulative share 1 and class \<open>C\<close>: the
  cumulative share 1 is above both thresholds 0.80 and 0.95.
\<close>

theorem single_item_class_C:
  assumes "0 < demand_total (s_stats r)"
  shows "abc_classify [r] = [with_abc r 1 1 ''C'']"
  using assms by (simp add: abc_classify_def Let_def abc_def)

theorem single_item_class_C_witness:
  "0 < demand_total (s_stats \<lparr> s_item_code = ''1001'', s_iteam_name = ''bolt'',
         s_stats = compute_demand_stats_and_forecast [Some 10] \<rparr>)
   \<and> map cum_demand_share
        (abc_classify [\<lparr> s_item_code = ''1001'', s_iteam_name = ''bolt'',
                         s_stats = compute_demand_stats_and_forecast [Some 10] \<rparr>]) = [1]
   \<and> map abc_class
        (abc_classify [\<lparr> s_item_code = ''1001'', s_iteam_name = ''bolt'',
                         s_stats = compute_demand_stats_and_forecast [Some 10] \<rparr>]) = [''C'']"
proof -
  have h: "0 < demand_total (s_stats \<lparr> s_item_code = ''1001'', s_iteam_name = ''bolt'',
         s_stats = compute_demand_stats_and_forecast [Some 10] \<rparr>)"
    by (simp add: compute_demand_stats_and_forecast_def fillna_def Let_def)
  show ?thesis
    using h single_item_class_C [OF h] by (simp add: with_abc_def)
qed

section \<open>Properties of the wide-to-long transformer\<close>

lemma chain_cell_rows:
  "map (\<lambda>(nm, cd, b, d). \<lparr> month = m, branch = b, item_code = cd, iteam_name = nm, demand = fillna 0 d \<rparr>)
     (filter (\<lambda>(nm, cd, b, d). d \<noteq> None)
       (map (\<lambda>(nm, cd, b, v). (nm, cd, b, to_numeric parse v))
         (filter (\<lambda>(nm, cd, b, v). \<not> contains ''total'' (lower nm))
           (map (\<lambda>(it, cd, b, v). (strip (py_str it), cd, b, v))
             (filter (\<lambda>(it, cd, b, v). strip cd \<noteq> '''')
               (map (\<lambda>(it, cd, b, v). (it, normalize_item_code cd, b, v))
                 (map (\<lambda>(it, cd, b, v). (it, cd, strip b, v)) xs)))))))
   = concat (map (\<lambda>(it, cd, b, v). cell_rows parse label b it cd v) xs)"
  if "m = standardize_month_label label"
  using that
  by (induction xs) (auto simp: cell_rows_def fillna_def split: option.splits)

lemma melt_cell_rows:
  "concat (map (\<lambda>(it, cd, b, v). cell_rows parse label b it cd v) (melt items codes cols))
   = concat (map (\<lambda>(c, cs). concat (map (\<lambda>(it, cd, v). cell_rows parse label c it cd v)
                                            (zip items (zip codes cs)))) cols)"
proof (induction cols)
  case Nil
  then show ?case by (simp add: melt_def)
next
  case (Cons col cols)
  obtain c cs where col: "col = (c, cs)" by (cases col)
  have "map (\<lambda>(it, cd, b, v). cell_rows parse label b it cd v) (zip items (zip codes (map (\<lambda>v. (c, v)) cs)))
      = map (\<lambda>(it, cd, v). cell_rows parse label c it cd v) (zip items (zip codes cs))"
    by (simp add: zip_map2 case_prod_beta)
  with Cons show ?case by (simp add: melt_def col)
qed

lemma build_long_rows:
  assumes "build_long_from_wide_month parse df label = Inr out"
  shows "out = long_rows parse df label"
proof -
  obtain items codes where ic: "map_of (prepared df) item_col = Some items"
      "map_of (prepared df) code_col = Some codes"
    using assms unfolding build_long_from_wide_month_def prepared_def Let_def
    by (auto split: option.splits)
  have bc: "filter (\<lambda>(c, cs). c \<notin> set [item_col, code_col] \<and> \<not> is_total_col c) (prepared df)
      = branch_columns df"
    by (simp add: branch_columns_def)
  have "Inr out = (Inr (concat (map (\<lambda>(it, cd, b, v). cell_rows parse label b it cd v)
                 (melt items codes (branch_columns df)))) :: error + long_row list)"
    unfolding assms [symmetric] build_long_from_wide_month_def Let_def prepared_def [symmetric]
    by (simp only: ic prod.case option.case bc chain_cell_rows [OF refl])
  then have "out = concat (map (\<lambda>(it, cd, b, v). cell_rows parse label b it cd v)
                 (melt items codes (branch_columns df)))"
    by simp
  then show ?thesis
    by (simp add: long_rows_def ic melt_cell_rows)
qed

lemma cell_rows_row:
  assumes "r \<in> set (cell_rows parse label c it cd v)"
  shows "branch r = strip c \<and> \<not> contains ''total'' (lower (iteam_name r))"
  using assms by (auto simp: cell_rows_def split: if_splits option.splits)

lemma long_rows_row:
  assumes "r \<in> set (long_rows parse df label)"
  shows "\<not> contains ''total'' (lower (branch r)) \<and> \<not> contains ''total'' (lower (iteam_name r))"
proof -
  from assms obtain c cs it cd v where
      col: "(c, cs) \<in> set (branch_columns df)" and r: "r \<in> set (cell_rows parse label c it cd v)"
    by (auto simp: long_rows_def split: option.splits)
  from col have "\<not> is_total_col c" by (simp add: branch_columns_def)
  with cell_rows_row [OF r] show ?thesis by (simp add: is_total_col_def)
qed

text \<open>
  C7. For a month sheet that the transformer accepts: no output row belongs to a column
  whose lower-cased header contains \<open>total\<close>, and no output row has an item name that
  contains \<open>total\<close> in any case; the output is, for each branch column and each sheet
  row in turn, the rows of that demand cell, where a cell that is not numeric (blank)
  yields no row and a numeric 0 in a row that is kept (code not empty, name without
  \<open>total\<close>) yields exactly one row, with demand 0.
\<close>

theorem wide_to_long_rows:
  assumes "wf_sheet df"
    and "build_long_from_wide_month parse df label = Inr out"
  shows "(\<forall>r \<in> set out. \<not> contains ''total'' (lower (branch r))
                       \<and> \<not> contains ''total'' (lower (iteam_name r)))
     \<and> out = long_rows parse df label
     \<and> (to_numeric parse v = None \<longrightarrow> cell_rows parse label c it cd v = [])
     \<and> (strip (normalize_item_code cd) \<noteq> '''' \<and> \<not> contains ''total'' (lower (strip (py_str it)))
          \<longrightarrow> cell_rows parse label c it cd (Number 0 t)
              = [\<lparr> month = standardize_month_label label, branch = strip c,
                   item_code = normalize_item_code cd, iteam_name = strip (py_str it),
                   demand = 0 \<rparr>])"
proof -
  have eq: "out = long_rows parse df label"
    using assms(2) by (rule build_long_rows)
  have rows: "\<forall>r \<in> set out. \<not> contains ''total'' (lower (branch r))
                       \<and> \<not> contains ''total'' (lower (iteam_name r))"
    unfolding eq using long_rows_row by blast
  have blank: "to_numeric parse v = None \<longrightarrow> cell_rows parse label c it cd v = []"
    by (simp add: cell_rows_def)
  have zero: "strip (normalize_item_code cd) \<noteq> '''' \<and> \<not> contains ''total'' (lower (strip (py_str it)))
          \<longrightarrow> cell_rows parse label c it cd (Number 0 t)
              = [\<lparr> month = standardize_month_label label, branch = strip c,
                   item_code = normalize_item_code cd, iteam_name = strip (py_str it),
                   demand = 0 \<rparr>]"
    by (simp add: cell_rows_def to_numeric_def)
  from rows eq blank zero show ?thesis by blast
qed

lemmas sheet_defs =
  wf_sheet_def wf_frame_def nrows_def build_long_from_wide_month_def melt_def
  swap_reversed_columns_def digits_ratio_def isna_def isdigit_def item_col_def code_col_def
  is_total_col_def to_numeric_def fillna_def standardize_month_label_def fmt_zero_padded_def

text \<open>
  A sheet with a \<open>Grand Total\<close> column, a \<open>Total\<close> row, a blank cell and a numeric 0: its
  only output row is the one of the 0.
\<close>

theorem wide_to_long_rows_witness:
  "wf_sheet [(''iteam name'', [Text ''Bolt'', Text ''Total'']),
             (''item code'', [Text ''A-1'', Text ''A-2'']),
             (''North '', [Number 0 ''0'', Number 7 ''7'']),
             (''South'', [PyNaN, Number 3 ''3'']),
             (''Grand Total'', [Number 0 ''0'', Number 10 ''10''])]
   \<and> build_long_from_wide_month (\<lambda>s. None)
        [(''iteam name'', [Text ''Bolt'', Text ''Total'']),
         (''item code'', [Text ''A-1'', Text ''A-2'']),
         (''North '', [Number 0 ''0'', Number 7 ''7'']),
         (''South'', [PyNaN, Number 3 ''3'']),
         (''Grand Total'', [Number 0 ''0'', Number 10 ''10''])] ''01-2025''
      = Inr [\<lparr> month = ''2025-01'', branch = ''North'', item_code = ''A-1'',
               iteam_name = ''Bolt'', demand = 0 \<rparr>]
   \<and> [\<lparr> month = ''2025-01'', branch = ''North'', item_code = ''A-1'',
         iteam_name = ''Bolt'', demand = 0 \<rparr>]
      = long_rows (\<lambda>s. None)
          [(''iteam name'', [Text ''Bolt'', Text ''Total'']),
           (''item code'', [Text ''A-1'', Text ''A-2'']),
           (''North '', [Number 0 ''0'', Number 7 ''7'']),
           (''South'', [PyNaN, Number 3 ''3'']),
           (''Grand Total'', [Number 0 ''0'', Number 10 ''10''])] ''01-2025''
   \<and> cell_rows (\<lambda>s. None) ''01-2025'' ''South'' (Text ''Bolt'') (Text ''A-1'') PyNaN = []
   \<and> cell_rows (\<lambda>s. None) ''01-2025'' ''North '' (Text ''Bolt'') (Text ''A-1'') (Number 0 ''0'')
      = [\<lparr> month = ''2025-01'', branch = ''North'', item_code = ''A-1'',
           iteam_name = ''Bolt'', demand = 0 \<rparr>]"
proof -
  let ?df = "[(''iteam name'', [Text ''Bolt'', Text ''Total'']),
             (''item code'', [Text ''A-1'', Text ''A-2'']),
             (''North '', [Number 0 ''0'', Number 7 ''7'']),
             (''South'', [PyNaN, Number 3 ''3'']),
             (''Grand Total'', [Number 0 ''0'', Number 10 ''10''])]"
  let ?row = "\<lparr> month = ''2025-01'', branch = ''North'', item_code = ''A-1'',
               iteam_name = ''Bolt'', demand = 0 \<rparr>"
  have wf: "wf_sheet ?df"
    by (simp add: sheet_defs strip_def py_isspace_def)
  have run: "build_long_from_wide_month (\<lambda>s. None) ?df ''01-2025'' = Inr [?row]"
    by (simp add: sheet_defs normalizer_defs)
  have nc: "normalize_item_code (Text ''A-1'') = ''A-1''"
    by (simp add: normalizer_defs)
  have code: "strip ''A-1'' = ''A-1''"
    by (simp add: strip_def py_isspace_def)
  have name: "strip (py_str (Text ''Bolt'')) = ''Bolt''"
    by (simp add: py_str_def strip_def py_isspace_def)
  have lbl: "standardize_month_label ''01-2025'' = ''2025-01''"
    by (simp add: sheet_defs normalizer_defs)
  have north: "strip ''North '' = ''North''"
    by (simp add: strip_def py_isspace_def)
  have kept: "strip (normalize_item_code (Text ''A-1'')) \<noteq> ''''
      \<and> \<not> contains ''total'' (lower (strip (py_str (Text ''Bolt''))))"
    unfolding nc code name by (simp add: lower_def lower_char_def)
  have blank: "to_numeric (\<lambda>s. None) PyNaN = None"
    by (simp add: to_numeric_def)
  note main = wide_to_long_rows [OF wf run]
  have a: "[?row] = long_rows (\<lambda>s. None) ?df ''01-2025''"
    using main by blast
  have b: "cell_rows (\<lambda>s. None) ''01-2025'' ''South'' (Text ''Bolt'') (Text ''A-1'') PyNaN = []"
    using wide_to_long_rows [OF wf run, where v = PyNaN and c = "''South''"
        and it = "Text ''Bolt''" and cd = "Text ''A-1''"] blank
    by blast
  have c: "cell_rows (\<lambda>s. None) ''01-2025'' ''North '' (Text ''Bolt'') (Text ''A-1'') (Number 0 ''0'')
      = [?row]"
    using wide_to_long_rows [OF wf run, where c = "''North ''" and it = "Text ''Bolt''"
        and cd = "Text ''A-1''" and t = "''0''"] kept
    unfolding nc code name lbl north by blast
  from wf run a b c show ?thesis by blast
qed

end
